theory Spec2Isabelle
  imports Complex_Main
begin

section \<open>Values, errors and the static configuration\<close>

text \<open>
  The development embeds \<^verbatim>\<open>src/mln/models/module.py\<close>: the class \<^verbatim>\<open>Module\<close> with its
  yield calculation, setup, teardown, harvest, click and arcade prize selection.
  Users, items, message templates and module instances are primary keys (naturals).
  A \<^verbatim>\<open>datetime\<close> is a number of microseconds on the time line and a
  \<^verbatim>\<open>timedelta\<close> a number of microseconds, both Python integers.
\<close>

type_synonym user = nat
type_synonym item_key = nat
type_synonym datetime = int
type_synonym timedelta = int

text \<open>
  Every \<^verbatim>\<open>raise\<close> of the source and every exception of a library call it makes is a
  value. The two \<^verbatim>\<open>RuntimeError\<close>s and the \<^verbatim>\<open>ValueError\<close> carry the message of the source.
  \<^verbatim>\<open>InsufficientInventory\<close> is the failure of the inventory ledger's removal.
\<close>

datatype error =
    ValueError string
  | RuntimeError string
  | AttributeError string
  | TypeError
  | IndexError
  | ZeroDivisionError
  | DoesNotExist
  | InsufficientInventory

text \<open>
  The members of \<^verbatim>\<open>ModuleEditorType\<close> and the settings classes are those the registry
  \<^verbatim>\<open>module_settings_classes\<close> (lines 205-231) names.
\<close>

datatype ModuleEditorType =
    CONCERT_I_ARCADE | CONCERT_II_ARCADE | DELIVERY_ARCADE | DESTRUCTOID_ARCADE
  | DR_INFERNO_ROBOT_SIM | FACTORY_GENERIC | FACTORY_NON_GENERIC | FRIEND_SHARE
  | FRIENDLY_FELIX_CONCERT | GALLERY_GENERIC | GALLERY_NON_GENERIC | GENERIC
  | GROUP_PERFORMANCE | HOP_ARCADE | LOOP_SHOPPE | NETWORKER_PIC | NETWORKER_TEXT
  | NETWORKER_TRADE | PLASTIC_PELLET_INDUCTOR | ROCKET_GAME | SOUNDTRACK | STICKER
  | STICKER_SHOPPE | TRADE | TRIO_PERFORMANCE

datatype settings_class =
    ModuleSaveConcertArcade | ModuleSaveDeliveryArcade | ModuleSaveDestructoidArcade
  | ModuleSaveHopArcade | ModuleSaveGeneric | ModuleSaveUGC | ModuleSetupFriendShare
  | ModuleSetupGroupPerformance | ModuleSaveNetworkerPic | ModuleSaveNetworkerText
  | ModuleSetupTrade | ModuleSaveRocketGame | ModuleSaveSticker | ModuleSaveSoundtrack
  | ModuleSetupTrioPerformance

fun module_settings_classes :: "ModuleEditorType \<Rightarrow> settings_class list" where
  "module_settings_classes CONCERT_I_ARCADE = [ModuleSaveConcertArcade]"
| "module_settings_classes CONCERT_II_ARCADE = [ModuleSaveConcertArcade]"
| "module_settings_classes DELIVERY_ARCADE = [ModuleSaveDeliveryArcade]"
| "module_settings_classes DESTRUCTOID_ARCADE = [ModuleSaveDestructoidArcade]"
| "module_settings_classes DR_INFERNO_ROBOT_SIM = [ModuleSaveDestructoidArcade]"
| "module_settings_classes FACTORY_GENERIC = [ModuleSaveGeneric, ModuleSaveUGC]"
| "module_settings_classes FACTORY_NON_GENERIC = [ModuleSaveUGC]"
| "module_settings_classes FRIEND_SHARE = [ModuleSaveGeneric, ModuleSetupFriendShare]"
| "module_settings_classes FRIENDLY_FELIX_CONCERT = [ModuleSaveConcertArcade]"
| "module_settings_classes GALLERY_GENERIC = [ModuleSaveGeneric, ModuleSaveUGC]"
| "module_settings_classes GALLERY_NON_GENERIC = [ModuleSaveUGC]"
| "module_settings_classes GENERIC = [ModuleSaveGeneric]"
| "module_settings_classes GROUP_PERFORMANCE = [ModuleSaveGeneric, ModuleSetupGroupPerformance]"
| "module_settings_classes HOP_ARCADE = [ModuleSaveHopArcade]"
| "module_settings_classes LOOP_SHOPPE = [ModuleSaveGeneric, ModuleSetupTrade]"
| "module_settings_classes NETWORKER_PIC = [ModuleSaveNetworkerPic]"
| "module_settings_classes NETWORKER_TEXT = [ModuleSaveGeneric, ModuleSaveNetworkerText]"
| "module_settings_classes NETWORKER_TRADE = [ModuleSaveGeneric, ModuleSetupTrade]"
| "module_settings_classes PLASTIC_PELLET_INDUCTOR = [ModuleSaveUGC]"
| "module_settings_classes ROCKET_GAME = [ModuleSaveSticker, ModuleSaveRocketGame]"
| "module_settings_classes SOUNDTRACK = [ModuleSaveGeneric, ModuleSaveSoundtrack]"
| "module_settings_classes STICKER = [ModuleSaveSticker]"
| "module_settings_classes STICKER_SHOPPE = [ModuleSaveGeneric, ModuleSetupTrade]"
| "module_settings_classes TRADE = [ModuleSaveGeneric, ModuleSetupTrade]"
| "module_settings_classes TRIO_PERFORMANCE = [ModuleSaveGeneric, ModuleSetupTrioPerformance]"

text \<open>
  Rows of the configuration tables, with the fields the source reads.
  \<^verbatim>\<open>item_qty\<close> is a row of \<^verbatim>\<open>ModuleSetupCost\<close> or \<^verbatim>\<open>ModuleExecutionCost\<close>;
  \<^verbatim>\<open>prob_yield\<close> a row of \<^verbatim>\<open>ModuleGuestYield\<close> or \<^verbatim>\<open>ModuleOwnerYield\<close>;
  \<^verbatim>\<open>arcade_prize\<close> an element of \<^verbatim>\<open>self.guest_yields.all()\<close>, the module's
  prize list, a relation declared outside \<^verbatim>\<open>module.py\<close>.
\<close>

record item_qty =
  item_id :: item_key
  qty :: int

record prob_yield = item_qty +
  probability :: int

record arcade_prize = item_qty +
  success_rate :: int

record ModuleMessage =
  message :: nat
  message_probability :: int

record ModuleHarvestYield =
  yield_item_id :: item_key
  yield_per_day :: int
  clicks_per_yield :: int
  max_yield :: int

record ModuleSetupTrade_row =
  give_item_id :: item_key
  give_qty :: int

datatype FriendshipStatus = FRIEND | PENDING | BLOCKED

record Friendship =
  from_user :: user
  to_user :: user
  status :: FriendshipStatus

text \<open>
  The module instance: the fields of lines 21-28, and its primary key \<open>pk\<close>.
  \<open>item\<close> is \<^verbatim>\<open>item_id\<close>, the key of the catalog item.
\<close>

record module =
  pk :: nat
  item :: item_key
  owner :: user
  pos_x :: "nat option"
  pos_y :: "nat option"
  last_harvest_time :: datetime
  clicks_since_last_harvest :: int
  total_clicks :: int
  is_setup :: "bool option"

text \<open>
  What the operations read and never write: the configuration tables (declared in
  \<^verbatim>\<open>static.py\<close> and \<^verbatim>\<open>module_settings.py\<close>, which are not part of the sources at hand,
  hence parameters), the friendship rows, the profiles' \<^verbatim>\<open>is_networker\<close> flag, the
  clock read by \<^verbatim>\<open>now()\<close>, and the random source. The \<open>k\<close>-th call of the random
  module returns \<open>random_floats k\<close> for \<^verbatim>\<open>random.random()\<close> and is derived from
  \<open>random_ints k\<close> for \<^verbatim>\<open>randrange\<close> and \<^verbatim>\<open>choice\<close>. A float is
  the real number that the IEEE double denotes: \<open>random_floats k\<close> is the double that
  \<^verbatim>\<open>random.random()\<close> returns.
\<close>

record env =
  module_info :: "item_key \<Rightarrow> ModuleEditorType option option"
  setup_costs :: "item_key \<Rightarrow> item_qty list"
  setup_trade :: "nat \<Rightarrow> ModuleSetupTrade_row option"
  harvest_yield :: "item_key \<Rightarrow> ModuleHarvestYield option"
  execution_costs :: "item_key \<Rightarrow> item_qty list"
  guest_yield_rows :: "item_key \<Rightarrow> prob_yield list"
  owner_yield_rows :: "item_key \<Rightarrow> prob_yield list"
  message_rows :: "item_key \<Rightarrow> ModuleMessage list"
  guest_yields :: "nat \<Rightarrow> arcade_prize list"
  friendships :: "Friendship list"
  is_networker :: "user \<Rightarrow> bool"
  now :: datetime
  random_floats :: "nat \<Rightarrow> real"
  random_ints :: "nat \<Rightarrow> nat"

text \<open>
  The mutable state: the module object \<open>self\<close>, the inventory ledger, the profiles'
  \<^verbatim>\<open>available_votes\<close>, the messages sent so far (template, sender, recipient),
  and the number of draws made from the random source.
\<close>

record world =
  self :: module
  inventory :: "user \<times> item_key \<Rightarrow> int"
  available_votes :: "user \<Rightarrow> int"
  sent :: "(nat \<times> user \<times> user) list"
  rng_calls :: nat

text \<open>
  An operation returns its result or the exception it raised, and the state it leaves:
  a raise keeps every mutation made before it.
\<close>

type_synonym 'a outcome = "(error + 'a) \<times> world"

section \<open>Collaborators\<close>

text \<open>
  Modelled from the spec: \<^verbatim>\<open>add_inv_item\<close> and \<^verbatim>\<open>remove_inv_item\<close> of
  \<^verbatim>\<open>services/inventory.py\<close>, which is not part of the sources at hand. The ledger
  "holds per-owner item quantity counts; exposes add(owner, item, qty) and
  remove(owner, item, qty) that fails if quantity would go negative".
\<close>

definition add_inv_item :: "user \<Rightarrow> item_key \<Rightarrow> int \<Rightarrow> world \<Rightarrow> world" where
  "add_inv_item u i q w = w\<lparr>inventory := (inventory w)((u, i) := inventory w (u, i) + q)\<rparr>"

definition remove_inv_item :: "user \<Rightarrow> item_key \<Rightarrow> int \<Rightarrow> world \<Rightarrow> unit outcome" where
  "remove_inv_item u i q w =
     (if inventory w (u, i) - q < 0 then (Inl InsufficientInventory, w)
      else (Inr (), w\<lparr>inventory := (inventory w)((u, i) := inventory w (u, i) - q)\<rparr>))"

text \<open>
  Modelled from the spec: \<^verbatim>\<open>send_template\<close> of \<^verbatim>\<open>services/message.py\<close>, which is not
  part of the sources at hand: it "sends a templated message from one user to another;
  fire-and-forget from the engine's perspective".
\<close>

definition send_template :: "nat \<Rightarrow> user \<Rightarrow> user \<Rightarrow> world \<Rightarrow> world" where
  "send_template template sender recipient w = w\<lparr>sent := sent w @ [(template, sender, recipient)]\<rparr>"

text \<open>
  Modelled from the spec: the constant \<^verbatim>\<open>DAY\<close> of \<^verbatim>\<open>models/dynamic.py\<close>, which is not
  part of the sources at hand: "one day", as a \<^verbatim>\<open>timedelta\<close> in microseconds.
\<close>

definition DAY :: timedelta where
  "DAY = 86400000000"

text \<open>
  Python's \<^verbatim>\<open>timedelta / int\<close> rounds the quotient of the microseconds to the nearest
  integer, ties to even (\<^verbatim>\<open>_divide_and_round\<close> of \<^verbatim>\<open>datetime.py\<close>), and
  \<^verbatim>\<open>divmod(timedelta, timedelta)\<close> is the floor division of the microseconds,
  raising \<^verbatim>\<open>ZeroDivisionError\<close> on a zero divisor.
\<close>

definition divide_and_round :: "int \<Rightarrow> int \<Rightarrow> int" where
  "divide_and_round a b =
     (let q = a div b; r = 2 * (a mod b);
          greater_than_half = (if b > 0 then r > b else r < b)
      in if greater_than_half \<or> (r = b \<and> q mod 2 = 1) then q + 1 else q)"

definition divmod_timedelta :: "timedelta \<Rightarrow> timedelta \<Rightarrow> error + (int \<times> timedelta)" where
  "divmod_timedelta a b = (if b = 0 then Inl ZeroDivisionError else Inr (a div b, a mod b))"

text \<open>
  Python's \<^verbatim>\<open>probability / 100\<close> on integers is the double nearest to the quotient,
  ties to the even significand. \<^verbatim>\<open>bit_length\<close> is \<^verbatim>\<open>int.bit_length\<close>; for positive
  \<open>n\<close> and \<open>d\<close> the binary exponent of \<open>n / d\<close> is \<open>e\<close>, and the quotient is
  rounded to 53 significant bits. The probability is a database integer, so the quotient
  stays within the range of the doubles.
\<close>

fun bit_length :: "nat \<Rightarrow> nat" where
  "bit_length n = (if n = 0 then 0 else Suc (bit_length (n div 2)))"

declare bit_length.simps [simp del]

definition nearest_double :: "nat \<Rightarrow> nat \<Rightarrow> real" where
  "nearest_double n d =
     (let k = bit_length d;
          e = int (bit_length (n * 2 ^ k div d)) - 1 - int k
      in if e \<le> 52
         then real_of_int (divide_and_round (int n * 2 ^ nat (52 - e)) (int d)) / 2 ^ nat (52 - e)
         else real_of_int (divide_and_round (int n) (int d * 2 ^ nat (e - 52))) * 2 ^ nat (e - 52))"

definition truediv_100 :: "int \<Rightarrow> real" where
  "truediv_100 p =
     (if p = 0 then 0
      else if 0 < p then nearest_double (nat p) 100
      else - nearest_double (nat (- p)) 100)"

text \<open>
  Modelled from the spec: \<^verbatim>\<open>get_or_none\<close> of \<^verbatim>\<open>models/dynamic.py\<close>, which is not
  part of the sources at hand: the row of the table with the given key, or \<^verbatim>\<open>None\<close>
  when "no yield configuration exists for the item".
\<close>

definition get_or_none :: "('k \<Rightarrow> 'r option) \<Rightarrow> 'k \<Rightarrow> 'r option" where
  [simp]: "get_or_none table k = table k"

text \<open>The random module: each call consumes one draw.\<close>

definition random_random :: "env \<Rightarrow> world \<Rightarrow> real \<times> world" where
  "random_random E w = (random_floats E (rng_calls w), w\<lparr>rng_calls := Suc (rng_calls w)\<rparr>)"

definition randrange :: "env \<Rightarrow> nat \<Rightarrow> world \<Rightarrow> int \<times> world" where
  "randrange E n w = (int (random_ints E (rng_calls w) mod n), w\<lparr>rng_calls := Suc (rng_calls w)\<rparr>)"

definition random_choice :: "env \<Rightarrow> 'a list \<Rightarrow> world \<Rightarrow> (error + 'a) \<times> world" where
  "random_choice E xs w =
     (if xs = [] then (Inl IndexError, w)
      else (Inr (xs ! (random_ints E (rng_calls w) mod length xs)),
            w\<lparr>rng_calls := Suc (rng_calls w)\<rparr>))"

section \<open>The module\<close>

subsection \<open>Configuration lookups and save\<close>

definition get_info :: "env \<Rightarrow> module \<Rightarrow> error + ModuleEditorType option" where
  "get_info E m = (case module_info E (item m) of None \<Rightarrow> Inl DoesNotExist | Some et \<Rightarrow> Inr et)"

definition is_setupable :: "env \<Rightarrow> module \<Rightarrow> error + bool" where
  "is_setupable E m =
     (case get_info E m of
        Inl e \<Rightarrow> Inl e
      | Inr et \<Rightarrow> Inr (et = Some TRADE \<or> setup_costs E (item m) \<noteq> []))"

definition get_settings_classes :: "env \<Rightarrow> module \<Rightarrow> error + settings_class list" where
  "get_settings_classes E m =
     (case get_info E m of
        Inl e \<Rightarrow> Inl e
      | Inr None \<Rightarrow> Inr []
      | Inr (Some et) \<Rightarrow> Inr (module_settings_classes et))"

text \<open>
  \<^verbatim>\<open>save\<close> (lines 36-40): a module that is not setupable and has \<^verbatim>\<open>is_setup is False\<close>
  gets \<^verbatim>\<open>None\<close>; then the fields are written to the row as they are.
\<close>

definition save :: "env \<Rightarrow> world \<Rightarrow> unit outcome" where
  "save E w =
     (case is_setupable E (self w) of
        Inl e \<Rightarrow> (Inl e, w)
      | Inr s \<Rightarrow>
          (Inr (),
           if \<not> s \<and> is_setup (self w) = Some False
           then w\<lparr>self := (self w)\<lparr>is_setup := None\<rparr>\<rparr>
           else w))"

text \<open>
  Creation: \<^verbatim>\<open>Module(item=..., owner=..., pos_x=..., pos_y=...).save()\<close>, with the field
  defaults of lines 25-28.
\<close>

definition create :: "env \<Rightarrow> nat \<Rightarrow> item_key \<Rightarrow> user \<Rightarrow> nat option \<Rightarrow> nat option \<Rightarrow> world \<Rightarrow> unit outcome" where
  "create E k i u x y w =
     save E (w\<lparr>self := \<lparr>pk = k, item = i, owner = u, pos_x = x, pos_y = y,
                         last_harvest_time = now E, clicks_since_last_harvest = 0,
                         total_clicks = 0, is_setup = Some False\<rparr>\<rparr>)"

subsection \<open>The yield calculator\<close>

text \<open>
  The time remainder that \<^verbatim>\<open>_calc_yield_info\<close> returns is the integer \<^verbatim>\<open>0\<close> on its
  two early returns and a \<^verbatim>\<open>timedelta\<close> otherwise.
\<close>

datatype py_remainder = PyInt int | Timedelta timedelta

text \<open>Lines 57-61: the time-based yield and the time remainder.\<close>

definition time_yield_info :: "ModuleHarvestYield \<Rightarrow> timedelta \<Rightarrow> error + (int \<times> timedelta)" where
  "time_yield_info yield_info time_since_harvest =
     (if yield_per_day yield_info = 0 then Inr (0, time_since_harvest)
      else divmod_timedelta time_since_harvest (divide_and_round DAY (yield_per_day yield_info)))"

text \<open>Lines 62-66: the click-based yield and the click remainder.\<close>

definition click_yield_info :: "ModuleHarvestYield \<Rightarrow> int \<Rightarrow> int \<times> int" where
  "click_yield_info yield_info clicks =
     (if clicks_per_yield yield_info = 0 then (0, clicks)
      else (clicks div clicks_per_yield yield_info, clicks mod clicks_per_yield yield_info))"

definition calc_yield_info :: "env \<Rightarrow> module \<Rightarrow> error + (int \<times> py_remainder \<times> int)" where
  "calc_yield_info E m =
     (case is_setupable E m of
        Inl e \<Rightarrow> Inl e
      | Inr s \<Rightarrow>
          if s \<and> is_setup m \<noteq> Some True then Inr (0, PyInt 0, 0)
          else (case get_or_none (harvest_yield E) (item m) of
                  None \<Rightarrow> Inr (0, PyInt 0, 0)
                | Some yield_info \<Rightarrow>
                    (case time_yield_info yield_info (now E - last_harvest_time m) of
                       Inl e \<Rightarrow> Inl e
                     | Inr (time_yield, time_remainder) \<Rightarrow>
                         (let (click_yield, click_remainder) =
                                click_yield_info yield_info (clicks_since_last_harvest m);
                              final_yield = min (time_yield + click_yield) (max_yield yield_info)
                          in Inr (final_yield, Timedelta time_remainder, click_remainder)))))"

definition calc_yield_qty :: "env \<Rightarrow> module \<Rightarrow> error + int" where
  "calc_yield_qty E m = (case calc_yield_info E m of Inl e \<Rightarrow> Inl e | Inr (y, _, _) \<Rightarrow> Inr y)"

definition get_yield_item_id :: "env \<Rightarrow> module \<Rightarrow> error + item_key" where
  "get_yield_item_id E m =
     (case harvest_yield E (item m) of None \<Rightarrow> Inl DoesNotExist | Some yi \<Rightarrow> Inr (yield_item_id yi))"

definition is_clickable :: "module \<Rightarrow> bool" where
  "is_clickable m = (is_setup m = None \<or> is_setup m = Some True)"

subsection \<open>Harvest, setup and teardown\<close>

text \<open>
  \<^verbatim>\<open>harvest\<close> (lines 92-103). The arguments of \<^verbatim>\<open>add_inv_item\<close> are evaluated before
  the call, so \<^verbatim>\<open>get_yield_item_id\<close> runs first. \<^verbatim>\<open>now() - time_remainder\<close> is
  defined for a \<^verbatim>\<open>timedelta\<close>; for the integer of the early returns Python raises
  \<^verbatim>\<open>TypeError\<close>.
\<close>

definition harvest :: "env \<Rightarrow> world \<Rightarrow> unit outcome" where
  "harvest E w =
     (case calc_yield_info E (self w) of
        Inl e \<Rightarrow> (Inl e, w)
      | Inr (harvest_qty, time_remainder, click_remainder) \<Rightarrow>
          (case get_yield_item_id E (self w) of
             Inl e \<Rightarrow> (Inl e, w)
           | Inr yid \<Rightarrow>
               (let w1 = add_inv_item (owner (self w)) yid harvest_qty w
                in case time_remainder of
                     PyInt _ \<Rightarrow> (Inl TypeError, w1)
                   | Timedelta d \<Rightarrow>
                       save E (w1\<lparr>self := (self w1)\<lparr>last_harvest_time := now E - d,
                                                      clicks_since_last_harvest := click_remainder,
                                                      is_setup := Some False\<rparr>\<rparr>))))"

text \<open>
  The loops over cost rows: \<^verbatim>\<open>for cost in costs: remove_inv_item(user, cost.item_id, cost.qty)\<close>
  stops at the first removal that raises; the removals before it stay.
\<close>

fun remove_costs :: "user \<Rightarrow> item_qty list \<Rightarrow> world \<Rightarrow> unit outcome" where
  "remove_costs u [] w = (Inr (), w)"
| "remove_costs u (c # cs) w =
     (case remove_inv_item u (item_id c) (qty c) w of
        (Inl e, w') \<Rightarrow> (Inl e, w')
      | (Inr _, w') \<Rightarrow> remove_costs u cs w')"

fun add_costs :: "user \<Rightarrow> item_qty list \<Rightarrow> world \<Rightarrow> world" where
  "add_costs u [] w = w"
| "add_costs u (c # cs) w = add_costs u cs (add_inv_item u (item_id c) (qty c) w)"

text \<open>
  \<^verbatim>\<open>self._needs_setup()\<close> (line 114): the class \<^verbatim>\<open>Module\<close> defines no attribute
  \<^verbatim>\<open>_needs_setup\<close> (its methods are those of lines 33-199, and Django's \<^verbatim>\<open>Model\<close> has
  none of that name), so the attribute lookup raises \<^verbatim>\<open>AttributeError\<close>.
\<close>

definition needs_setup :: "env \<Rightarrow> module \<Rightarrow> error + bool" where
  "needs_setup E m = Inl (AttributeError ''_needs_setup'')"

text \<open>Lines 116-125 of \<^verbatim>\<open>setup\<close>: consuming the cost and entering the set-up state.\<close>

definition setup_consume :: "env \<Rightarrow> world \<Rightarrow> unit outcome" where
  "setup_consume E w =
     (case get_settings_classes E (self w) of
        Inl e \<Rightarrow> (Inl e, w)
      | Inr classes \<Rightarrow>
          (case (if ModuleSetupTrade \<in> set classes
                 then (case setup_trade E (pk (self w)) of
                         None \<Rightarrow> (Inl DoesNotExist, w)
                       | Some trade \<Rightarrow>
                           remove_inv_item (owner (self w)) (give_item_id trade) (give_qty trade) w)
                 else remove_costs (owner (self w)) (setup_costs E (item (self w))) w) of
             (Inl e, w1) \<Rightarrow> (Inl e, w1)
           | (Inr _, w1) \<Rightarrow>
               save E (w1\<lparr>self := (self w1)\<lparr>is_setup := Some True,
                                              last_harvest_time := now E\<rparr>\<rparr>)))"

text \<open>\<^verbatim>\<open>setup\<close> (lines 105-125).\<close>

definition setup_module :: "env \<Rightarrow> world \<Rightarrow> unit outcome" where
  "setup_module E w =
     (if is_setup (self w) = Some True then (Inr (), w)
      else (case needs_setup E (self w) of
              Inl e \<Rightarrow> (Inl e, w)
            | Inr b \<Rightarrow>
                if \<not> b then (Inl (RuntimeError ''Module is not setupable.''), w)
                else setup_consume E w))"

text \<open>\<^verbatim>\<open>teardown\<close> (lines 127-138).\<close>

definition teardown :: "env \<Rightarrow> world \<Rightarrow> unit outcome" where
  "teardown E w =
     (if is_setup (self w) \<noteq> Some True then (Inr (), w)
      else (case get_settings_classes E (self w) of
              Inl e \<Rightarrow> (Inl e, w)
            | Inr classes \<Rightarrow>
                (case (if ModuleSetupTrade \<in> set classes
                       then (case setup_trade E (pk (self w)) of
                               None \<Rightarrow> (Inl DoesNotExist, w)
                             | Some trade \<Rightarrow>
                                 (Inr (), add_inv_item (owner (self w)) (give_item_id trade)
                                            (give_qty trade) w))
                       else (Inr (), add_costs (owner (self w)) (setup_costs E (item (self w))) w)) of
                   (Inl e, w1) \<Rightarrow> (Inl e, w1)
                 | (Inr _, w1) \<Rightarrow> save E (w1\<lparr>self := (self w1)\<lparr>is_setup := Some False\<rparr>\<rparr>))))"

subsection \<open>Click and reward distribution\<close>

text \<open>\<^verbatim>\<open>_update_clicks\<close> (lines 140-152).\<close>

definition update_clicks :: "env \<Rightarrow> user \<Rightarrow> world \<Rightarrow> unit outcome" where
  "update_clicks E clicker w =
     (if clicker = owner (self w) then (Inl (ValueError ''Can't vote on own module''), w)
      else if available_votes w clicker \<le> 0 then (Inl (RuntimeError ''Voter has no votes left''), w)
      else if \<not> is_clickable (self w) then (Inl (RuntimeError ''This module is not set up''), w)
      else (let w1 = w\<lparr>available_votes := (available_votes w)(clicker := available_votes w clicker - 1)\<rparr>;
                w2 = w1\<lparr>self := (self w1)\<lparr>clicks_since_last_harvest := clicks_since_last_harvest (self w1) + 1,
                                            total_clicks := total_clicks (self w1) + 1\<rparr>\<rparr>
            in save E w2))"

text \<open>
  \<^verbatim>\<open>_get_random_friend\<close> (lines 70-78): the accepted friendships of the owner whose
  counterpart is not a networker, incoming first, and \<^verbatim>\<open>random.choice\<close> among them.
\<close>

definition eligible_friends :: "env \<Rightarrow> module \<Rightarrow> user list" where
  "eligible_friends E m =
     (let incoming = filter (\<lambda>f. to_user f = owner m \<and> \<not> is_networker E (from_user f) \<and> status f = FRIEND)
                       (friendships E);
          outgoing = filter (\<lambda>f. from_user f = owner m \<and> \<not> is_networker E (to_user f) \<and> status f = FRIEND)
                       (friendships E);
          incoming_friends = map from_user incoming;
          outgoing_friends = map to_user outgoing
      in incoming_friends @ outgoing_friends)"

definition get_random_friend :: "env \<Rightarrow> world \<Rightarrow> user outcome" where
  "get_random_friend E w = random_choice E (eligible_friends E (self w)) w"

text \<open>The three reward loops of \<^verbatim>\<open>_distribute_items\<close> (lines 159-168).\<close>

fun roll_yields :: "env \<Rightarrow> user \<Rightarrow> prob_yield list \<Rightarrow> world \<Rightarrow> world" where
  "roll_yields E u [] w = w"
| "roll_yields E u (y # ys) w =
     (let (r, w1) = random_random E w
      in roll_yields E u ys
           (if r < truediv_100 (probability y) then add_inv_item u (item_id y) (qty y) w1 else w1))"

fun roll_messages :: "env \<Rightarrow> ModuleMessage list \<Rightarrow> world \<Rightarrow> unit outcome" where
  "roll_messages E [] w = (Inr (), w)"
| "roll_messages E (friend_message # ms) w =
     (let (r, w1) = random_random E w
      in if r < truediv_100 (message_probability friend_message)
         then (case get_random_friend E w1 of
                 (Inl e, w2) \<Rightarrow> (Inl e, w2)
               | (Inr random_friend, w2) \<Rightarrow>
                   roll_messages E ms
                     (send_template (message friend_message) (owner (self w2)) random_friend w2))
         else roll_messages E ms w1)"

text \<open>
  \<^verbatim>\<open>_distribute_items\<close> (lines 154-169). The value returned is the loop variable
  \<^verbatim>\<open>guest_yield\<close>: the last row of the guest yields, or \<^verbatim>\<open>None\<close> when there is none.
\<close>

definition distribute_items :: "env \<Rightarrow> user \<Rightarrow> world \<Rightarrow> prob_yield option outcome" where
  "distribute_items E clicker w =
     (case remove_costs clicker (execution_costs E (item (self w))) w of
        (Inl e, w1) \<Rightarrow> (Inl e, w1)
      | (Inr _, w1) \<Rightarrow>
          (let guests = guest_yield_rows E (item (self w1));
               guest_yield = (if guests = [] then None else Some (last guests));
               w2 = roll_yields E clicker guests w1;
               w3 = roll_yields E (owner (self w2)) (owner_yield_rows E (item (self w2))) w2
           in case roll_messages E (message_rows E (item (self w3))) w3 of
                (Inl e, w4) \<Rightarrow> (Inl e, w4)
              | (Inr _, w4) \<Rightarrow> (Inr guest_yield, w4)))"

text \<open>\<^verbatim>\<open>click\<close> (lines 171-181).\<close>

definition click :: "env \<Rightarrow> user \<Rightarrow> world \<Rightarrow> prob_yield option outcome" where
  "click E clicker w =
     (case update_clicks E clicker w of
        (Inl e, w1) \<Rightarrow> (Inl e, w1)
      | (Inr _, w1) \<Rightarrow>
          (case distribute_items E clicker w1 of
             (Inl e, w2) \<Rightarrow> (Inl e, w2)
           | (Inr guest_yield, w2) \<Rightarrow>
               if is_setup (self w2) = Some True \<and> \<not> is_networker E (owner (self w2))
               then (case save E (w2\<lparr>self := (self w2)\<lparr>is_setup := Some False\<rparr>\<rparr>) of
                       (Inl e, w3) \<Rightarrow> (Inl e, w3)
                     | (Inr _, w3) \<Rightarrow> (Inr guest_yield, w3))
               else (Inr guest_yield, w2)))"

subsection \<open>Arcade prize selection\<close>

text \<open>The loop of \<^verbatim>\<open>select_arcade_prize\<close> (lines 187-192), with its running sum.\<close>

fun prize_loop :: "int \<Rightarrow> int \<Rightarrow> user \<Rightarrow> arcade_prize list \<Rightarrow> world \<Rightarrow> arcade_prize outcome" where
  "prize_loop chance sum0 u [] w =
     (Inl (RuntimeError ''Should have chosen a prize but didn't for some reason''), w)"
| "prize_loop chance sum0 u (prize # ps) w =
     (let sum1 = sum0 + success_rate prize
      in if sum1 > chance then (Inr prize, add_inv_item u (item_id prize) (qty prize) w)
         else prize_loop chance sum1 u ps w)"

definition select_arcade_prize :: "env \<Rightarrow> user \<Rightarrow> world \<Rightarrow> arcade_prize outcome" where
  "select_arcade_prize E u w =
     (let (chance, w1) = randrange E 100 w
      in prize_loop chance 0 u (guest_yields E (pk (self w1))) w1)"

section \<open>Specification-side notions and reference inputs\<close>

text \<open>
  The arcade selector in the words of its contract: the cumulative weight of the first
  \<open>i + 1\<close> prizes, the index of the first prize whose cumulative weight exceeds the
  draw, and the table none of whose cumulative weights exceeds it.
\<close>

definition cumulative_weight :: "arcade_prize list \<Rightarrow> nat \<Rightarrow> int" where
  "cumulative_weight prizes i = sum_list (map success_rate (take (Suc i) prizes))"

definition first_exceeding :: "int \<Rightarrow> arcade_prize list \<Rightarrow> nat \<Rightarrow> bool" where
  "first_exceeding chance prizes i =
     (i < length prizes \<and> chance < cumulative_weight prizes i \<and>
      list_all (\<lambda>j. cumulative_weight prizes j \<le> chance) [0..<i])"

definition none_exceeding :: "int \<Rightarrow> arcade_prize list \<Rightarrow> bool" where
  "none_exceeding chance prizes =
     list_all (\<lambda>j. cumulative_weight prizes j \<le> chance) [0..<length prizes]"

text \<open>
  Reference inputs: a module of a generic catalog item with no configured costs, yields
  or messages, owned by user 1; user 2 is a visitor.
\<close>

definition module0 :: module where
  "module0 = \<lparr>pk = 1, item = 10, owner = 1, pos_x = None, pos_y = None,
               last_harvest_time = 0, clicks_since_last_harvest = 0, total_clicks = 0,
               is_setup = None\<rparr>"

definition env0 :: env where
  "env0 = \<lparr>module_info = (\<lambda>i. if i = 10 then Some (Some GENERIC) else None),
            setup_costs = (\<lambda>_. []), setup_trade = (\<lambda>_. None), harvest_yield = (\<lambda>_. None),
            execution_costs = (\<lambda>_. []), guest_yield_rows = (\<lambda>_. []),
            owner_yield_rows = (\<lambda>_. []), message_rows = (\<lambda>_. []), guest_yields = (\<lambda>_. []),
            friendships = [], is_networker = (\<lambda>_. False), now = 0,
            random_floats = (\<lambda>_. 0), random_ints = (\<lambda>_. 0)\<rparr>"

definition world0 :: world where
  "world0 = \<lparr>self = module0, inventory = (\<lambda>_. 0), available_votes = (\<lambda>_. 3), sent = [],
              rng_calls = 0\<rparr>"

definition prize1 :: arcade_prize where
  "prize1 = \<lparr>item_id = 101, qty = 1, success_rate = 30\<rparr>"

definition prize2 :: arcade_prize where
  "prize2 = \<lparr>item_id = 102, qty = 2, success_rate = 70\<rparr>"

definition prize3 :: arcade_prize where
  "prize3 = \<lparr>item_id = 103, qty = 1, success_rate = 50\<rparr>"

definition arcade_env :: "nat \<Rightarrow> arcade_prize list \<Rightarrow> env" where
  "arcade_env draw prizes = env0\<lparr>guest_yields := (\<lambda>_. prizes), random_ints := (\<lambda>_. draw)\<rparr>"

definition yield_env :: env where
  "yield_env = env0\<lparr>harvest_yield :=
                       (\<lambda>_. Some \<lparr>yield_item_id = 20, yield_per_day = 2, clicks_per_yield = 0,
                                   max_yield = 10\<rparr>),
                     now := 43200000000\<rparr>"

definition click_yield_env :: env where
  "click_yield_env = env0\<lparr>harvest_yield :=
                             (\<lambda>_. Some \<lparr>yield_item_id = 20, yield_per_day = 2, clicks_per_yield = 3,
                                         max_yield = 10\<rparr>),
                           now := 43200000000\<rparr>"

definition fast_yield_env :: env where
  "fast_yield_env = env0\<lparr>harvest_yield :=
                            (\<lambda>_. Some \<lparr>yield_item_id = 20, yield_per_day = 172800000000,
                                        clicks_per_yield = 0, max_yield = 10\<rparr>),
                          now := 43200000000\<rparr>"

text \<open>
  Further reference inputs: execution costs of one unit of item 5 and one of item 6, a
  visitor holding one unit of item 5 only, a message row that always fires, a setup
  cost, and a module that needs setup.
\<close>

definition cost_env :: env where
  "cost_env = env0\<lparr>execution_costs := (\<lambda>_. [\<lparr>item_id = 5, qty = 1\<rparr>, \<lparr>item_id = 6, qty = 1\<rparr>])\<rparr>"

definition visitor_world :: world where
  "visitor_world = world0\<lparr>inventory := (\<lambda>k. if k = (2, 5) then 1 else 0)\<rparr>"

definition message_env :: env where
  "message_env = env0\<lparr>message_rows := (\<lambda>_. [\<lparr>message = 7, message_probability = 100\<rparr>])\<rparr>"

definition setup_cost_env :: env where
  "setup_cost_env = yield_env\<lparr>setup_costs := (\<lambda>_. [\<lparr>item_id = 5, qty = 2\<rparr>])\<rparr>"

definition needs_setup_world :: world where
  "needs_setup_world = world0\<lparr>self := module0\<lparr>is_setup := Some False\<rparr>\<rparr>"

text \<open>
  The setup-state invariant: a module whose item has no setup requirement has
  \<^verbatim>\<open>is_setup = None\<close>.
\<close>

definition setup_state_ok :: "env \<Rightarrow> module \<Rightarrow> bool" where
  "setup_state_ok E m = (is_setupable E m = Inr False \<longrightarrow> is_setup m = None)"

text \<open>
  Reference inputs for setup and teardown: an itemized setup cost, a trade setup cost, an
  owner who holds the cost items, and a module that is set up.
\<close>

definition itemized_env :: env where
  "itemized_env = env0\<lparr>setup_costs := (\<lambda>_. [\<lparr>item_id = 5, qty = 2\<rparr>, \<lparr>item_id = 6, qty = 1\<rparr>])\<rparr>"

definition trade_env :: env where
  "trade_env = env0\<lparr>module_info := (\<lambda>i. if i = 10 then Some (Some TRADE) else None),
                      setup_trade := (\<lambda>_. Some \<lparr>give_item_id = 5, give_qty = 2\<rparr>)\<rparr>"

definition owner_world :: world where
  "owner_world = world0\<lparr>self := module0\<lparr>is_setup := Some False\<rparr>,
                        inventory := (\<lambda>k. if k = (1, 5) then 3 else if k = (1, 6) then 1 else 0)\<rparr>"

definition set_up_world :: world where
  "set_up_world = world0\<lparr>self := module0\<lparr>is_setup := Some True\<rparr>\<rparr>"

section \<open>The yield calculator and its cap\<close>

lemma divide_and_round_DAY_nonzero:
  assumes "0 < d" "d < 2 * DAY"
  shows "divide_and_round DAY d \<noteq> 0"
proof (cases "d \<le> DAY")
  case True
  with assms have "0 < DAY div d"
    by (simp add: pos_imp_zdiv_pos_iff)
  then show ?thesis
    by (auto simp: divide_and_round_def Let_def)
next
  case False
  then have "DAY div d = 0" "DAY mod d = DAY"
    using assms by (simp_all add: DAY_def)
  then show ?thesis using assms False
    by (auto simp: divide_and_round_def Let_def)
qed

lemma divide_and_round_nearest:
  assumes "0 < b"
  shows "\<bar>2 * (divide_and_round a b * b - a)\<bar> \<le> b"
proof -
  define q r where "q = a div b" and "r = a mod b"
  have a: "a = q * b + r" by (simp add: q_def r_def)
  have r: "0 \<le> r" "r < b" using assms by (simp_all add: r_def)
  show ?thesis
  proof (cases "b < 2 * r \<or> (2 * r = b \<and> q mod 2 = 1)")
    case True
    then have "divide_and_round a b = q + 1"
      using assms by (auto simp: divide_and_round_def Let_def q_def r_def)
    then have "divide_and_round a b * b - a = b - r"
      by (simp add: a algebra_simps)
    with True r show ?thesis by auto
  next
    case False
    then have "divide_and_round a b = q"
      using assms by (auto simp: divide_and_round_def Let_def q_def r_def)
    then have "divide_and_round a b * b - a = - r"
      by (simp add: a)
    with False r show ?thesis by auto
  qed
qed

text \<open>
  Claim C1, as amended. For a module whose catalog entry exists and a yield-rate
  configuration with \<^verbatim>\<open>max_yield\<close> not negative and \<^verbatim>\<open>yield_per_day\<close> from 0 to
  below twice the microseconds of a day: a module that has no setup requirement or is
  set up gets the minimum of \<^verbatim>\<open>max_yield\<close> and the sum of the time yield (0 when
  \<^verbatim>\<open>yield_per_day\<close> is 0, else the elapsed time floor-divided by the period
  \<^verbatim>\<open>DAY / yield_per_day\<close>) and the click yield (0 when \<^verbatim>\<open>clicks_per_yield\<close> is 0,
  else the clicks floor-divided by it); a module that requires setup and is not set up
  gets 0 (lines 51-52). In every case the quantity does not exceed \<^verbatim>\<open>max_yield\<close>.
  The period is one day divided by \<^verbatim>\<open>yield_per_day\<close>, rounded to the nearest
  microsecond.
\<close>

theorem calc_yield_eligible_capped:
  assumes info: "module_info E (item m) = Some et"
    and cfg: "harvest_yield E (item m) = Some yi"
    and ypd: "0 \<le> yield_per_day yi" "yield_per_day yi < 2 * DAY"
    and cap: "0 \<le> max_yield yi"
  shows "calc_yield_qty E m =
           Inr (if (et = Some TRADE \<or> setup_costs E (item m) \<noteq> []) \<and> is_setup m \<noteq> Some True
                then 0
                else min ((if yield_per_day yi = 0 then 0
                           else (now E - last_harvest_time m)
                                  div divide_and_round DAY (yield_per_day yi)) +
                          (if clicks_per_yield yi = 0 then 0
                           else clicks_since_last_harvest m div clicks_per_yield yi))
                         (max_yield yi)) \<and>
         (\<exists>y. calc_yield_qty E m = Inr y \<and> y \<le> max_yield yi) \<and>
         (yield_per_day yi \<noteq> 0 \<longrightarrow>
            \<bar>2 * (divide_and_round DAY (yield_per_day yi) * yield_per_day yi - DAY)\<bar>
              \<le> yield_per_day yi)"
proof -
  let ?needs = "(et = Some TRADE \<or> setup_costs E (item m) \<noteq> []) \<and> is_setup m \<noteq> Some True"
  let ?ty = "if yield_per_day yi = 0 then 0
             else (now E - last_harvest_time m) div divide_and_round DAY (yield_per_day yi)"
  let ?cy = "if clicks_per_yield yi = 0 then 0
             else clicks_since_last_harvest m div clicks_per_yield yi"
  have period: "yield_per_day yi \<noteq> 0 \<Longrightarrow> divide_and_round DAY (yield_per_day yi) \<noteq> 0"
    using ypd by (intro divide_and_round_DAY_nonzero) auto
  have t: "\<exists>tr. time_yield_info yi (now E - last_harvest_time m) = Inr (?ty, tr)"
    using period by (simp add: time_yield_info_def divmod_timedelta_def)
  have c: "fst (click_yield_info yi (clicks_since_last_harvest m)) = ?cy"
    by (simp add: click_yield_info_def)
  have s: "is_setupable E m = Inr (et = Some TRADE \<or> setup_costs E (item m) \<noteq> [])"
    using info by (simp add: is_setupable_def get_info_def)
  have q: "calc_yield_qty E m = Inr (if ?needs then 0 else min (?ty + ?cy) (max_yield yi))"
  proof (cases ?needs)
    case True
    then show ?thesis using s by (simp add: calc_yield_qty_def calc_yield_info_def)
  next
    case False
    from t obtain tr where tr: "time_yield_info yi (now E - last_harvest_time m) = Inr (?ty, tr)" ..
    obtain cy cr where cc: "click_yield_info yi (clicks_since_last_harvest m) = (cy, cr)"
      by (cases "click_yield_info yi (clicks_since_last_harvest m)")
    with c have cy: "cy = ?cy" by simp
    have "calc_yield_info E m = Inr (min (?ty + cy) (max_yield yi), Timedelta tr, cr)"
      using False s cfg tr cc by (auto simp: calc_yield_info_def)
    then have "calc_yield_qty E m = Inr (min (?ty + ?cy) (max_yield yi))"
      by (simp add: calc_yield_qty_def cy)
    then show ?thesis unfolding if_not_P[OF False] .
  qed
  from q cap have b: "\<exists>y. calc_yield_qty E m = Inr y \<and> y \<le> max_yield yi"
    by (cases ?needs) simp_all
  have n: "yield_per_day yi \<noteq> 0 \<longrightarrow>
      \<bar>2 * (divide_and_round DAY (yield_per_day yi) * yield_per_day yi - DAY)\<bar> \<le> yield_per_day yi"
    using ypd divide_and_round_nearest[of "yield_per_day yi" DAY] by auto
  from q b n show ?thesis by blast
qed

text \<open>
  Two units a day and one unit per three clicks, with a cap of 10, twelve hours after
  the last harvest: 7 clicks give 1 + 2 = 3, 40 clicks give 1 + 13 capped to 10; a
  module that needs setup and is not set up gets 0.
\<close>

theorem calc_yield_eligible_capped_witness:
  "calc_yield_qty click_yield_env (module0\<lparr>clicks_since_last_harvest := 7\<rparr>) = Inr 3 \<and>
   calc_yield_qty click_yield_env (module0\<lparr>clicks_since_last_harvest := 40\<rparr>) = Inr 10 \<and>
   calc_yield_qty setup_cost_env (self needs_setup_world) = Inr 0 \<and>
   divide_and_round DAY 2 = 43200000000"
proof -
  let ?yi = "\<lparr>yield_item_id = 20, yield_per_day = 2, clicks_per_yield = 3, max_yield = 10\<rparr>"
  let ?yj = "\<lparr>yield_item_id = 20, yield_per_day = 2, clicks_per_yield = 0, max_yield = 10\<rparr>"
  have period: "divide_and_round DAY 2 = 43200000000"
    by (simp add: divide_and_round_def DAY_def Let_def)
  have info: "module_info click_yield_env (item (module0\<lparr>clicks_since_last_harvest := c\<rparr>)) =
      Some (Some GENERIC)" for c
    by (simp add: click_yield_env_def env0_def module0_def)
  have cfg: "harvest_yield click_yield_env (item (module0\<lparr>clicks_since_last_harvest := c\<rparr>)) =
      Some ?yi" for c
    by (simp add: click_yield_env_def env0_def)
  have b: "0 \<le> yield_per_day ?yi" "yield_per_day ?yi < 2 * DAY" "0 \<le> max_yield ?yi"
    by (simp_all add: DAY_def)
  have info': "module_info setup_cost_env (item (self needs_setup_world)) = Some (Some GENERIC)"
    by (simp add: setup_cost_env_def yield_env_def env0_def needs_setup_world_def world0_def
        module0_def)
  have cfg': "harvest_yield setup_cost_env (item (self needs_setup_world)) = Some ?yj"
    by (simp add: setup_cost_env_def yield_env_def env0_def)
  have b': "0 \<le> yield_per_day ?yj" "yield_per_day ?yj < 2 * DAY" "0 \<le> max_yield ?yj"
    by (simp_all add: DAY_def)
  have "calc_yield_qty click_yield_env (module0\<lparr>clicks_since_last_harvest := 7\<rparr>) = Inr 3"
    using calc_yield_eligible_capped[OF info cfg b, of 7] period
    by (simp add: click_yield_env_def env0_def module0_def DAY_def)
  moreover have "calc_yield_qty click_yield_env (module0\<lparr>clicks_since_last_harvest := 40\<rparr>) = Inr 10"
    using calc_yield_eligible_capped[OF info cfg b, of 40] period
    by (simp add: click_yield_env_def env0_def module0_def DAY_def)
  moreover have "calc_yield_qty setup_cost_env (self needs_setup_world) = Inr 0"
    using calc_yield_eligible_capped[OF info' cfg' b']
    by (simp add: setup_cost_env_def yield_env_def env0_def needs_setup_world_def world0_def
        module0_def DAY_def)
  ultimately show ?thesis using period by simp
qed

text \<open>
  The claim as stated fails for a module that requires setup and is not set up: twelve
  hours after the last harvest, with two units a day, the time yield is 1 and the click
  yield 0, and the calculator returns 0, not \<open>min (1 + 0) 10\<close>. It also fails for
  \<^verbatim>\<open>yield_per_day\<close> of twice the microseconds of a day: the period rounds to the zero
  \<^verbatim>\<open>timedelta\<close> and \<^verbatim>\<open>divmod\<close> raises \<^verbatim>\<open>ZeroDivisionError\<close>.
\<close>

theorem calc_yield_early_return_counterexample:
  "is_setupable setup_cost_env (self needs_setup_world) = Inr True \<and>
   is_setup (self needs_setup_world) = Some False \<and>
   harvest_yield setup_cost_env (item (self needs_setup_world)) =
     Some \<lparr>yield_item_id = 20, yield_per_day = 2, clicks_per_yield = 0, max_yield = 10\<rparr> \<and>
   time_yield_info \<lparr>yield_item_id = 20, yield_per_day = 2, clicks_per_yield = 0, max_yield = 10\<rparr>
     (now setup_cost_env - last_harvest_time (self needs_setup_world)) = Inr (1, 0) \<and>
   click_yield_info \<lparr>yield_item_id = 20, yield_per_day = 2, clicks_per_yield = 0, max_yield = 10\<rparr>
     (clicks_since_last_harvest (self needs_setup_world)) = (0, 0) \<and>
   calc_yield_qty setup_cost_env (self needs_setup_world) = Inr 0 \<and>
   calc_yield_qty setup_cost_env (self needs_setup_world) \<noteq> Inr (min (1 + 0) 10) \<and>
   calc_yield_qty fast_yield_env module0 = Inl ZeroDivisionError"
proof -
  have period: "divide_and_round DAY 2 = 43200000000"
    by (simp add: divide_and_round_def DAY_def Let_def)
  have zero: "divide_and_round DAY 172800000000 = 0"
    by (simp add: divide_and_round_def DAY_def Let_def)
  show ?thesis
    using period zero
    by (simp add: calc_yield_qty_def calc_yield_info_def is_setupable_def get_info_def
        time_yield_info_def click_yield_info_def divmod_timedelta_def setup_cost_env_def
        fast_yield_env_def yield_env_def env0_def needs_setup_world_def world0_def module0_def)
qed

section \<open>Clicking one's own module\<close>

text \<open>
  Claim C9. \<^verbatim>\<open>click\<close> with the module's owner as the visitor raises the
  \<^verbatim>\<open>ValueError\<close> of line 143, whatever the state, and leaves the whole state as it was:
  the vote allowance, both click counters and all inventories.
\<close>

theorem click_own_module:
  "click E (owner (self w)) w = (Inl (ValueError ''Can't vote on own module''), w)"
  by (simp add: click_def update_clicks_def)

section \<open>Setup of a module that is not set up\<close>

text \<open>
  Claim C5. \<^verbatim>\<open>setup\<close> on a module that is not set up reaches the guard of line 114,
  \<^verbatim>\<open>self._needs_setup()\<close>, and raises \<^verbatim>\<open>AttributeError\<close> there. The
  \<^verbatim>\<open>RuntimeError("Module is not setupable.")\<close> of line 115 is never raised, also for an
  item with no setup requirement.
\<close>

theorem setup_raises_attribute_error:
  "is_setup (self w) \<noteq> Some True \<Longrightarrow>
   setup_module E w = (Inl (AttributeError ''_needs_setup''), w)"
  by (simp add: setup_module_def needs_setup_def)

theorem setup_raises_attribute_error_witness:
  "is_setupable env0 (self world0) = Inr False \<and>
   setup_module env0 world0 = (Inl (AttributeError ''_needs_setup''), world0) \<and>
   setup_module env0 world0 \<noteq> (Inl (RuntimeError ''Module is not setupable.''), world0)"
proof -
  have h: "is_setup (self world0) \<noteq> Some True"
    by (simp add: world0_def module0_def)
  from setup_raises_attribute_error[OF h, of env0] show ?thesis
    by (simp add: is_setupable_def get_info_def env0_def world0_def module0_def)
qed

section \<open>Arcade prize selection\<close>

lemma prize_loop_cases:
  "prize_loop c s u ps w =
     (Inl (RuntimeError ''Should have chosen a prize but didn't for some reason''), w) \<or>
   (\<exists>p \<in> set ps. prize_loop c s u ps w = (Inr p, add_inv_item u (item_id p) (qty p) w))"
  by (induction ps arbitrary: s) (auto simp: Let_def)

lemma prize_loop_first:
  "i < length ps \<Longrightarrow> c < s + cumulative_weight ps i \<Longrightarrow> (\<forall>j<i. s + cumulative_weight ps j \<le> c)
   \<Longrightarrow> prize_loop c s u ps w = (Inr (ps ! i), add_inv_item u (item_id (ps ! i)) (qty (ps ! i)) w)"
proof (induction ps arbitrary: s i)
  case Nil
  then show ?case by simp
next
  case (Cons p ps)
  show ?case
  proof (cases i)
    case 0
    with Cons.prems show ?thesis by (simp add: cumulative_weight_def)
  next
    case (Suc k)
    from Cons.prems(3) Suc have p: "s + success_rate p \<le> c"
      by (auto simp: cumulative_weight_def dest: spec[of _ 0])
    have k: "k < length ps" using Cons.prems(1) Suc by simp
    have c: "c < (s + success_rate p) + cumulative_weight ps k"
      using Cons.prems(2) Suc by (simp add: cumulative_weight_def)
    have a: "\<forall>j<k. (s + success_rate p) + cumulative_weight ps j \<le> c"
    proof (intro allI impI)
      fix j assume "j < k"
      then have "Suc j < i" using Suc by simp
      with Cons.prems(3) have "s + cumulative_weight (p # ps) (Suc j) \<le> c" by blast
      then show "(s + success_rate p) + cumulative_weight ps j \<le> c"
        by (simp add: cumulative_weight_def)
    qed
    from Cons.IH[OF k c a] p Suc show ?thesis by simp
  qed
qed

lemma prize_loop_none:
  "(\<forall>j<length ps. s + cumulative_weight ps j \<le> c)
   \<Longrightarrow> prize_loop c s u ps w = (Inl (RuntimeError ''Should have chosen a prize but didn't for some reason''), w)"
proof (induction ps arbitrary: s)
  case Nil
  then show ?case by simp
next
  case (Cons p ps)
  from Cons.prems have p: "s + success_rate p \<le> c"
    by (auto simp: cumulative_weight_def dest: spec[of _ 0])
  have a: "\<forall>j<length ps. (s + success_rate p) + cumulative_weight ps j \<le> c"
  proof (intro allI impI)
    fix j assume "j < length ps"
    then have "Suc j < length (p # ps)" by simp
    with Cons.prems have "s + cumulative_weight (p # ps) (Suc j) \<le> c" by blast
    then show "(s + success_rate p) + cumulative_weight ps j \<le> c"
      by (simp add: cumulative_weight_def)
  qed
  from Cons.IH[OF a] p show ?case by simp
qed

text \<open>
  Claim C8. \<^verbatim>\<open>select_arcade_prize\<close> draws an integer in \<open>[0, 100)\<close> and walks the
  prize list in order, adding up the success rates: the first prize whose cumulative
  weight exceeds the draw is credited to the user and returned; when no cumulative weight
  exceeds the draw the \<^verbatim>\<open>RuntimeError\<close> of line 192 is raised.
\<close>

theorem select_arcade_prize_first_exceeding:
  "0 \<le> fst (randrange E 100 w) \<and> fst (randrange E 100 w) < 100 \<and>
   (first_exceeding (fst (randrange E 100 w)) (guest_yields E (pk (self w))) i \<longrightarrow>
      select_arcade_prize E u w =
        (Inr (guest_yields E (pk (self w)) ! i),
         add_inv_item u (item_id (guest_yields E (pk (self w)) ! i))
           (qty (guest_yields E (pk (self w)) ! i)) (snd (randrange E 100 w)))) \<and>
   (none_exceeding (fst (randrange E 100 w)) (guest_yields E (pk (self w))) \<longrightarrow>
      select_arcade_prize E u w =
        (Inl (RuntimeError ''Should have chosen a prize but didn't for some reason''),
         snd (randrange E 100 w)))"
proof -
  let ?c = "fst (randrange E 100 w)" and ?w1 = "snd (randrange E 100 w)"
  let ?ps = "guest_yields E (pk (self w))"
  have s: "select_arcade_prize E u w = prize_loop ?c 0 u ?ps ?w1"
    by (simp add: select_arcade_prize_def randrange_def)
  have r: "0 \<le> ?c \<and> ?c < 100" by (simp add: randrange_def)
  have a: "first_exceeding ?c ?ps i \<longrightarrow>
      prize_loop ?c 0 u ?ps ?w1 = (Inr (?ps ! i), add_inv_item u (item_id (?ps ! i)) (qty (?ps ! i)) ?w1)"
    using prize_loop_first[of i ?ps ?c 0 u ?w1]
    by (simp add: first_exceeding_def list_all_iff)
  have b: "none_exceeding ?c ?ps \<longrightarrow> prize_loop ?c 0 u ?ps ?w1 =
      (Inl (RuntimeError ''Should have chosen a prize but didn't for some reason''), ?w1)"
    using prize_loop_none[of ?ps 0 ?c u ?w1]
    by (simp add: none_exceeding_def list_all_iff)
  from s r a b show ?thesis by simp
qed

lemma arcade_env_read:
  "guest_yields (arcade_env d ps) k = ps" "random_ints (arcade_env d ps) k = d"
  by (simp_all add: arcade_env_def env0_def)

text \<open>
  The scenarios of the specification: weights 30 and 70 with the draws 29, 30 and 99, and
  a table summing to 80 with the draw 85.
\<close>

theorem select_arcade_prize_scenarios:
  "select_arcade_prize (arcade_env 29 [prize1, prize2]) 2 world0 =
     (Inr prize1, add_inv_item 2 101 1 (world0\<lparr>rng_calls := 1\<rparr>)) \<and>
   select_arcade_prize (arcade_env 30 [prize1, prize2]) 2 world0 =
     (Inr prize2, add_inv_item 2 102 2 (world0\<lparr>rng_calls := 1\<rparr>)) \<and>
   select_arcade_prize (arcade_env 99 [prize1, prize2]) 2 world0 =
     (Inr prize2, add_inv_item 2 102 2 (world0\<lparr>rng_calls := 1\<rparr>)) \<and>
   select_arcade_prize (arcade_env 85 [prize1, prize3]) 2 world0 =
     (Inl (RuntimeError ''Should have chosen a prize but didn't for some reason''),
      world0\<lparr>rng_calls := 1\<rparr>)"
  using select_arcade_prize_first_exceeding[of "arcade_env 29 [prize1, prize2]" world0 0 2]
    select_arcade_prize_first_exceeding[of "arcade_env 30 [prize1, prize2]" world0 1 2]
    select_arcade_prize_first_exceeding[of "arcade_env 99 [prize1, prize2]" world0 1 2]
    select_arcade_prize_first_exceeding[of "arcade_env 85 [prize1, prize3]" world0 0 2]
  by (simp add: arcade_env_read randrange_def first_exceeding_def none_exceeding_def
      cumulative_weight_def prize1_def prize2_def prize3_def world0_def upt_rec[of 0])

text \<open>
  Claim C10. \<^verbatim>\<open>select_arcade_prize\<close> leaves the module as it is (position, harvest
  time, both click counters, \<^verbatim>\<open>is_setup\<close>), as well as the vote allowances and the
  messages; besides the draw from the random source, its only effect is the credit of the
  winning prize's item and quantity to the user's inventory, and none when it raises.
\<close>

theorem select_arcade_prize_frame:
  "self (snd (select_arcade_prize E u w)) = self w \<and>
   available_votes (snd (select_arcade_prize E u w)) = available_votes w \<and>
   sent (snd (select_arcade_prize E u w)) = sent w \<and>
   (select_arcade_prize E u w =
      (Inl (RuntimeError ''Should have chosen a prize but didn't for some reason''),
       w\<lparr>rng_calls := Suc (rng_calls w)\<rparr>) \<or>
    (\<exists>prize \<in> set (guest_yields E (pk (self w))).
       select_arcade_prize E u w =
         (Inr prize, add_inv_item u (item_id prize) (qty prize) (w\<lparr>rng_calls := Suc (rng_calls w)\<rparr>))))"
  using prize_loop_cases[of "fst (randrange E 100 w)" 0 u "guest_yields E (pk (self w))"
      "w\<lparr>rng_calls := Suc (rng_calls w)\<rparr>"]
  by (auto simp: select_arcade_prize_def randrange_def add_inv_item_def)

section \<open>Frame lemmas\<close>

lemma add_inv_item_frame [simp]:
  "self (add_inv_item u i q w) = self w"
  "available_votes (add_inv_item u i q w) = available_votes w"
  "sent (add_inv_item u i q w) = sent w"
  "rng_calls (add_inv_item u i q w) = rng_calls w"
  by (simp_all add: add_inv_item_def)

lemma add_inv_item_zero [simp]: "add_inv_item u i 0 w = w"
  by (simp add: add_inv_item_def)

lemma remove_costs_frame:
  "self (snd (remove_costs u cs w)) = self w \<and>
   available_votes (snd (remove_costs u cs w)) = available_votes w \<and>
   sent (snd (remove_costs u cs w)) = sent w \<and>
   rng_calls (snd (remove_costs u cs w)) = rng_calls w"
  by (induction cs arbitrary: w) (simp_all add: remove_inv_item_def)

lemma roll_yields_frame:
  "self (roll_yields E u ys w) = self w \<and>
   available_votes (roll_yields E u ys w) = available_votes w \<and>
   sent (roll_yields E u ys w) = sent w \<and>
   rng_calls (roll_yields E u ys w) = rng_calls w + length ys"
  by (induction ys arbitrary: w) (simp_all add: random_random_def)

lemma update_clicks_success:
  assumes "update_clicks E clicker w = (Inr (), w1)"
  shows "w1 = w\<lparr>available_votes := (available_votes w)(clicker := available_votes w clicker - 1),
                 self := (self w)\<lparr>clicks_since_last_harvest := clicks_since_last_harvest (self w) + 1,
                                  total_clicks := total_clicks (self w) + 1\<rparr>\<rparr>"
    and "clicker \<noteq> owner (self w)" and "0 < available_votes w clicker" and "is_clickable (self w)"
  using assms
  by (auto simp: update_clicks_def save_def is_clickable_def Let_def is_setupable_def get_info_def
      split: if_splits sum.splits option.splits)

section \<open>Harvest without a yield configuration or without setup\<close>

text \<open>
  Claim C4. \<^verbatim>\<open>harvest\<close> does not succeed for every module. With no yield
  configuration for the item, \<^verbatim>\<open>get_yield_item_id\<close> (line 86) raises
  \<^verbatim>\<open>DoesNotExist\<close>; for a module that requires setup and is not set up, with a yield
  configuration, zero is credited and then \<^verbatim>\<open>now() - time_remainder\<close> (line 100)
  raises \<^verbatim>\<open>TypeError\<close>, the remainder being the integer 0 of line 52. In both cases
  the state is left as it was.
\<close>

theorem harvest_raises:
  "(harvest_yield E (item (self w)) = None \<longrightarrow> harvest E w = (Inl DoesNotExist, w)) \<and>
   (is_setupable E (self w) = Inr True \<and> is_setup (self w) \<noteq> Some True \<and>
    harvest_yield E (item (self w)) \<noteq> None \<longrightarrow> harvest E w = (Inl TypeError, w))"
  by (auto simp: harvest_def calc_yield_info_def get_yield_item_id_def is_setupable_def
      get_info_def split: option.splits sum.splits)

theorem harvest_raises_witness:
  "harvest_yield env0 (item (self world0)) = None \<and>
   is_setupable setup_cost_env (self needs_setup_world) = Inr True \<and>
   is_setup (self needs_setup_world) = Some False \<and>
   harvest_yield setup_cost_env (item (self needs_setup_world)) \<noteq> None \<and>
   harvest env0 world0 = (Inl DoesNotExist, world0) \<and>
   harvest env0 needs_setup_world = (Inl DoesNotExist, needs_setup_world) \<and>
   harvest setup_cost_env needs_setup_world = (Inl TypeError, needs_setup_world)"
  using harvest_raises[of env0 world0] harvest_raises[of env0 needs_setup_world]
    harvest_raises[of setup_cost_env needs_setup_world]
  by (simp add: is_setupable_def get_info_def setup_cost_env_def yield_env_def env0_def
      needs_setup_world_def world0_def module0_def)

section \<open>A click that fails after its first mutations\<close>

lemma remove_costs_fail:
  "remove_costs u cs w = (Inl e, w') \<Longrightarrow>
   \<exists>n<length cs. remove_costs u (take n cs) w = (Inr (), w') \<and>
     inventory w' (u, item_id (cs ! n)) < qty (cs ! n) \<and> e = InsufficientInventory"
proof (induction cs arbitrary: w)
  case Nil
  then show ?case by simp
next
  case (Cons c cs)
  show ?case
  proof (cases "inventory w (u, item_id c) - qty c < 0")
    case True
    with Cons.prems have "w' = w" "e = InsufficientInventory"
      by (simp_all add: remove_inv_item_def)
    with True show ?thesis by (intro exI[of _ 0]) simp
  next
    case False
    define w1 where "w1 = w\<lparr>inventory := (inventory w)((u, item_id c) := inventory w (u, item_id c) - qty c)\<rparr>"
    from False have r: "remove_inv_item u (item_id c) (qty c) w = (Inr (), w1)"
      by (simp add: remove_inv_item_def w1_def)
    with Cons.prems have "remove_costs u cs w1 = (Inl e, w')" by simp
    from Cons.IH[OF this] obtain n where n: "n < length cs"
      "remove_costs u (take n cs) w1 = (Inr (), w')"
      "inventory w' (u, item_id (cs ! n)) < qty (cs ! n)" "e = InsufficientInventory"
      by blast
    with r show ?thesis by (intro exI[of _ "Suc n"]) simp
  qed
qed

text \<open>
  Claim C2, as amended. When the removal of an execution cost raises after
  \<^verbatim>\<open>_update_clicks\<close> has succeeded, \<^verbatim>\<open>click\<close> raises that error
  (\<^verbatim>\<open>InsufficientInventory\<close>) and nothing is restored: the visitor's vote allowance
  stays one lower, both click counters stay one higher, and the execution costs before
  the failing row stay removed from the visitor's inventory. No message is sent and
  \<^verbatim>\<open>is_setup\<close> is as before the click.
\<close>

theorem click_failure_keeps_effects:
  assumes u: "update_clicks E clicker w = (Inr (), w1)"
    and r: "remove_costs clicker (execution_costs E (item (self w))) w1 = (Inl e, w2)"
  shows "click E clicker w = (Inl e, w2) \<and> e = InsufficientInventory \<and>
         available_votes w2 clicker = available_votes w clicker - 1 \<and>
         clicks_since_last_harvest (self w2) = clicks_since_last_harvest (self w) + 1 \<and>
         total_clicks (self w2) = total_clicks (self w) + 1 \<and>
         is_setup (self w2) = is_setup (self w) \<and>
         sent w2 = sent w \<and>
         (\<exists>n<length (execution_costs E (item (self w))).
            remove_costs clicker (take n (execution_costs E (item (self w)))) w1 = (Inr (), w2) \<and>
            inventory w2 (clicker, item_id (execution_costs E (item (self w)) ! n))
              < qty (execution_costs E (item (self w)) ! n))"
proof -
  note w1 = update_clicks_success(1)[OF u]
  have i: "item (self w1) = item (self w)" by (simp add: w1)
  have c: "click E clicker w = (Inl e, w2)"
    using u r by (simp add: click_def distribute_items_def i)
  have f: "self w2 = self w1" "available_votes w2 = available_votes w1" "sent w2 = sent w1"
    using remove_costs_frame[of clicker "execution_costs E (item (self w))" w1] r by simp_all
  from remove_costs_fail[OF r] c f show ?thesis by (auto simp: w1)
qed

theorem click_failure_keeps_effects_witness:
  "update_clicks cost_env 2 visitor_world =
     (Inr (), visitor_world\<lparr>available_votes := (available_votes visitor_world)(2 := 2),
                            self := module0\<lparr>clicks_since_last_harvest := 1, total_clicks := 1\<rparr>\<rparr>) \<and>
   click cost_env 2 visitor_world =
     (Inl InsufficientInventory,
      visitor_world\<lparr>available_votes := (available_votes visitor_world)(2 := 2),
                    self := module0\<lparr>clicks_since_last_harvest := 1, total_clicks := 1\<rparr>,
                    inventory := (\<lambda>k. 0)\<rparr>)"
proof -
  let ?w1 = "visitor_world\<lparr>available_votes := (available_votes visitor_world)(2 := 2),
                            self := module0\<lparr>clicks_since_last_harvest := 1, total_clicks := 1\<rparr>\<rparr>"
  let ?w2 = "visitor_world\<lparr>available_votes := (available_votes visitor_world)(2 := 2),
                    self := module0\<lparr>clicks_since_last_harvest := 1, total_clicks := 1\<rparr>,
                    inventory := (\<lambda>k. 0)\<rparr>"
  have u: "update_clicks cost_env 2 visitor_world = (Inr (), ?w1)"
    by (simp add: update_clicks_def save_def is_setupable_def get_info_def is_clickable_def
        cost_env_def env0_def visitor_world_def world0_def module0_def Let_def)
  have r: "remove_costs 2 (execution_costs cost_env (item (self visitor_world))) ?w1 =
      (Inl InsufficientInventory, ?w2)"
    by (auto simp: remove_inv_item_def cost_env_def env0_def visitor_world_def world0_def
        module0_def fun_eq_iff)
  from click_failure_keeps_effects[OF u r] u show ?thesis by simp
qed

text \<open>
  The claim as stated fails: the visitor holds item 5 but not item 6; after the failed
  click one vote, one unit of item 5 and the old counter values are gone.
\<close>

theorem click_no_rollback_counterexample:
  "fst (click cost_env 2 visitor_world) = Inl InsufficientInventory \<and>
   available_votes visitor_world 2 = 3 \<and>
   available_votes (snd (click cost_env 2 visitor_world)) 2 = 2 \<and>
   clicks_since_last_harvest (self visitor_world) = 0 \<and>
   clicks_since_last_harvest (self (snd (click cost_env 2 visitor_world))) = 1 \<and>
   total_clicks (self visitor_world) = 0 \<and>
   total_clicks (self (snd (click cost_env 2 visitor_world))) = 1 \<and>
   inventory visitor_world (2, 5) = 1 \<and>
   inventory (snd (click cost_env 2 visitor_world)) (2, 5) = 0"
  by (simp add: click_def update_clicks_def distribute_items_def save_def is_setupable_def
      get_info_def is_clickable_def remove_inv_item_def cost_env_def env0_def visitor_world_def
      world0_def module0_def Let_def)

section \<open>A friend message for an owner without friends\<close>

lemma truediv_100_100: "truediv_100 100 = 1"
  by (simp add: truediv_100_def nearest_double_def bit_length.simps divide_and_round_def Let_def)

lemma roll_messages_empty_pool:
  assumes "random_floats E (rng_calls w) < truediv_100 (message_probability friend_message)"
    and "eligible_friends E (self w) = []"
  shows "roll_messages E (friend_message # ms) w = (Inl IndexError, w\<lparr>rng_calls := Suc (rng_calls w)\<rparr>)"
  using assms
  by (simp add: random_random_def get_random_friend_def random_choice_def eligible_friends_def)

text \<open>
  Claim C3. When a friend-message row fires and the owner has no eligible friend,
  \<^verbatim>\<open>random.choice\<close> (line 78) raises \<^verbatim>\<open>IndexError\<close>; neither
  \<^verbatim>\<open>_distribute_items\<close> nor \<^verbatim>\<open>click\<close> catches it, so the click raises it, after the
  vote, the counters, the execution costs and the guest and owner rewards have been
  applied.
\<close>

theorem click_empty_friend_pool_raises:
  assumes u: "update_clicks E clicker w = (Inr (), w1)"
    and r: "remove_costs clicker (execution_costs E (item (self w))) w1 = (Inr (), w2)"
    and y: "w3 = roll_yields E (owner (self w)) (owner_yield_rows E (item (self w)))
                   (roll_yields E clicker (guest_yield_rows E (item (self w))) w2)"
    and m: "message_rows E (item (self w)) = friend_message # ms"
    and p: "random_floats E (rng_calls w3) < truediv_100 (message_probability friend_message)"
    and e: "eligible_friends E (self w) = []"
  shows "click E clicker w = (Inl IndexError, w3\<lparr>rng_calls := Suc (rng_calls w3)\<rparr>)"
proof -
  note w1 = update_clicks_success(1)[OF u]
  have s1: "item (self w1) = item (self w)" "owner (self w1) = owner (self w)"
    by (simp_all add: w1)
  have s2: "self w2 = self w1"
    using remove_costs_frame[of clicker "execution_costs E (item (self w))" w1] r by simp
  have s3: "self w3 = self w1"
    by (simp add: y roll_yields_frame s2)
  have e3: "eligible_friends E (self w3) = []"
    using e by (simp add: eligible_friends_def s3 s1)
  have d: "distribute_items E clicker w1 = (Inl IndexError, w3\<lparr>rng_calls := Suc (rng_calls w3)\<rparr>)"
    using r roll_messages_empty_pool[OF p e3, of ms]
    by (simp add: distribute_items_def Let_def s1 s2 roll_yields_frame m y[symmetric])
  show ?thesis using u d by (simp add: click_def)
qed

theorem click_empty_friend_pool_raises_witness:
  "eligible_friends message_env (self world0) = [] \<and>
   click message_env 2 world0 =
     (Inl IndexError,
      world0\<lparr>available_votes := (available_votes world0)(2 := 2),
             self := module0\<lparr>clicks_since_last_harvest := 1, total_clicks := 1\<rparr>,
             rng_calls := 1\<rparr>)"
proof -
  let ?w1 = "world0\<lparr>available_votes := (available_votes world0)(2 := 2),
                     self := module0\<lparr>clicks_since_last_harvest := 1, total_clicks := 1\<rparr>\<rparr>"
  have u: "update_clicks message_env 2 world0 = (Inr (), ?w1)"
    by (simp add: update_clicks_def save_def is_setupable_def get_info_def is_clickable_def
        message_env_def env0_def world0_def module0_def Let_def)
  have r: "remove_costs 2 (execution_costs message_env (item (self world0))) ?w1 = (Inr (), ?w1)"
    by (simp add: message_env_def env0_def)
  have y: "?w1 = roll_yields message_env (owner (self world0))
                   (owner_yield_rows message_env (item (self world0)))
                   (roll_yields message_env 2 (guest_yield_rows message_env (item (self world0))) ?w1)"
    by (simp add: message_env_def env0_def)
  have m: "message_rows message_env (item (self world0)) =
      \<lparr>message = 7, message_probability = 100\<rparr> # []"
    by (simp add: message_env_def env0_def)
  have p: "random_floats message_env (rng_calls ?w1)
      < truediv_100 (message_probability \<lparr>message = 7, message_probability = 100\<rparr>)"
    by (simp add: message_env_def env0_def truediv_100_100)
  have e: "eligible_friends message_env (self world0) = []"
    by (simp add: eligible_friends_def message_env_def env0_def)
  from click_empty_friend_pool_raises[OF u r y m p e] e show ?thesis
    by (simp add: world0_def)
qed

section \<open>Setup followed by teardown\<close>

text \<open>
  Claim C6. For a module that is not set up, \<^verbatim>\<open>setup\<close> raises
  \<^verbatim>\<open>AttributeError\<close> at its guard (line 114) whatever the owner holds: nothing is
  consumed and the module does not become set up, so the \<^verbatim>\<open>teardown\<close> that follows
  returns at line 130 and refunds nothing. The consumption of lines 116-125 is never
  reached, for the trade cost and for the itemized costs alike.
\<close>

theorem setup_consumes_nothing:
  assumes "is_setup (self w) \<noteq> Some True"
  shows "setup_module E w = (Inl (AttributeError ''_needs_setup''), w) \<and>
         teardown E (snd (setup_module E w)) = (Inr (), w)"
  using assms by (simp add: setup_module_def needs_setup_def teardown_def)

theorem setup_consumes_nothing_witness:
  "is_setupable itemized_env (self owner_world) = Inr True \<and>
   is_setup (self owner_world) = Some False \<and>
   fst (remove_costs (owner (self owner_world)) (setup_costs itemized_env (item (self owner_world)))
          owner_world) = Inr () \<and>
   setup_module itemized_env owner_world = (Inl (AttributeError ''_needs_setup''), owner_world) \<and>
   is_setup (self (snd (setup_module itemized_env owner_world))) \<noteq> Some True \<and>
   inventory (snd (setup_module itemized_env owner_world)) (1, 5) = 3 \<and>
   teardown itemized_env (snd (setup_module itemized_env owner_world)) = (Inr (), owner_world) \<and>
   is_setupable trade_env (self owner_world) = Inr True \<and>
   fst (remove_inv_item (owner (self owner_world)) 5 2 owner_world) = Inr () \<and>
   setup_module trade_env owner_world = (Inl (AttributeError ''_needs_setup''), owner_world)"
proof -
  have n: "is_setup (self owner_world) \<noteq> Some True"
    by (simp add: owner_world_def)
  have a: "is_setupable itemized_env (self owner_world) = Inr True"
    "is_setupable trade_env (self owner_world) = Inr True"
    "is_setup (self owner_world) = Some False"
    by (simp_all add: is_setupable_def get_info_def itemized_env_def trade_env_def env0_def
        owner_world_def module0_def)
  have h: "fst (remove_costs (owner (self owner_world))
                  (setup_costs itemized_env (item (self owner_world))) owner_world) = Inr ()"
    "fst (remove_inv_item (owner (self owner_world)) 5 2 owner_world) = Inr ()"
    "inventory owner_world (1, 5) = 3"
    by (simp_all add: remove_inv_item_def itemized_env_def env0_def owner_world_def module0_def)
  note i = setup_consumes_nothing[OF n, of itemized_env]
  note t = setup_consumes_nothing[OF n, of trade_env]
  have s: "snd (setup_module itemized_env owner_world) = owner_world"
    using i by simp
  from i[THEN conjunct1] i[THEN conjunct2] t[THEN conjunct1] a h n s
  show ?thesis by simp
qed

section \<open>The setup-state invariant\<close>

lemma is_setupable_cong: "item m' = item m \<Longrightarrow> is_setupable E m' = is_setupable E m"
  by (cases "module_info E (item m)") (simp_all add: is_setupable_def get_info_def)

lemma setup_state_ok_cong:
  "item m' = item m \<Longrightarrow> is_setup m' = is_setup m \<Longrightarrow> setup_state_ok E m' = setup_state_ok E m"
  by (simp add: setup_state_ok_def is_setupable_cong[of m' m])

lemma save_ok:
  assumes "is_setup (self w) \<noteq> Some True \<or> setup_state_ok E (self w)"
  shows "setup_state_ok E (self (snd (save E w)))"
proof (cases "is_setupable E (self w)")
  case (Inl e)
  then show ?thesis by (simp add: save_def setup_state_ok_def)
next
  case (Inr s)
  show ?thesis
  proof (cases "\<not> s \<and> is_setup (self w) = Some False")
    case True
    with Inr show ?thesis by (simp add: save_def setup_state_ok_def)
  next
    case False
    with Inr have "save E w = (Inr (), w)" by (auto simp: save_def)
    moreover have "setup_state_ok E (self w)"
      using assms Inr False by (cases "is_setup (self w)") (auto simp: setup_state_ok_def)
    ultimately show ?thesis by simp
  qed
qed

lemma roll_messages_frame:
  "self (snd (roll_messages E ms w)) = self w \<and>
   available_votes (snd (roll_messages E ms w)) = available_votes w \<and>
   inventory (snd (roll_messages E ms w)) = inventory w"
  by (induction ms arbitrary: w)
    (simp_all add: random_random_def get_random_friend_def random_choice_def send_template_def)

lemma distribute_items_self: "self (snd (distribute_items E clicker w)) = self w"
proof -
  obtain r w1 where rm: "remove_costs clicker (execution_costs E (item (self w))) w = (r, w1)"
    by (cases "remove_costs clicker (execution_costs E (item (self w))) w")
  have s1: "self w1 = self w"
    using remove_costs_frame[of clicker "execution_costs E (item (self w))" w] rm by simp
  show ?thesis
  proof (cases r)
    case (Inl e)
    with rm s1 show ?thesis by (simp add: distribute_items_def)
  next
    case (Inr x)
    let ?w3 = "roll_yields E (owner (self w)) (owner_yield_rows E (item (self w)))
                 (roll_yields E clicker (guest_yield_rows E (item (self w))) w1)"
    obtain r4 w4 where m: "roll_messages E (message_rows E (item (self w))) ?w3 = (r4, w4)"
      by (cases "roll_messages E (message_rows E (item (self w))) ?w3")
    have "self w4 = self ?w3"
      using roll_messages_frame[of E "message_rows E (item (self w))" ?w3] m by simp
    then have s4: "self w4 = self w" by (simp add: roll_yields_frame s1)
    from rm Inr m s4 show ?thesis
      by (cases r4) (simp_all add: distribute_items_def Let_def s1 roll_yields_frame)
  qed
qed

lemma create_ok: "setup_state_ok E (self (snd (create E k i u x y w)))"
  unfolding create_def by (rule save_ok) simp

lemma setup_module_ok:
  "setup_state_ok E (self w) \<Longrightarrow> setup_state_ok E (self (snd (setup_module E w)))"
  by (simp add: setup_module_def needs_setup_def)

lemma save_after_reset_ok:
  "setup_state_ok E (self (snd (save E (w\<lparr>self := (self w)\<lparr>is_setup := Some False\<rparr>\<rparr>))))"
  by (rule save_ok) simp

lemma teardown_ok:
  assumes ok: "setup_state_ok E (self w)"
  shows "setup_state_ok E (self (snd (teardown E w)))"
proof (cases "is_setup (self w) \<noteq> Some True")
  case True
  with ok show ?thesis by (simp add: teardown_def)
next
  case False
  show ?thesis
  proof (cases "get_settings_classes E (self w)")
    case (Inl e)
    with False ok show ?thesis by (simp add: teardown_def)
  next
    case (Inr classes)
    show ?thesis
    proof (cases "ModuleSetupTrade \<in> set classes")
      case True
      show ?thesis
      proof (cases "setup_trade E (pk (self w))")
        case None
        with False Inr True ok show ?thesis by (simp add: teardown_def)
      next
        case (Some trade)
        let ?wa = "add_inv_item (owner (self w)) (give_item_id trade) (give_qty trade) w"
        have "teardown E w = save E (?wa\<lparr>self := (self ?wa)\<lparr>is_setup := Some False\<rparr>\<rparr>)"
          using False Inr True Some by (simp add: teardown_def)
        then show ?thesis by (simp only: save_after_reset_ok)
      qed
    next
      case nt: False
      let ?wa = "add_costs (owner (self w)) (setup_costs E (item (self w))) w"
      have "teardown E w = save E (?wa\<lparr>self := (self ?wa)\<lparr>is_setup := Some False\<rparr>\<rparr>)"
        using False Inr nt by (simp add: teardown_def)
      then show ?thesis by (simp only: save_after_reset_ok)
    qed
  qed
qed

lemma harvest_cases:
  "(\<exists>e. harvest E w = (Inl e, w)) \<or>
   (\<exists>yi. harvest_yield E (item (self w)) = Some yi \<and> is_setupable E (self w) = Inr True \<and>
      is_setup (self w) \<noteq> Some True \<and> harvest E w = (Inl TypeError, w)) \<or>
   (\<exists>w1 t c. self w1 = self w \<and> (is_setupable E (self w) = Inr False \<or> is_setup (self w) = Some True) \<and>
      harvest E w = save E (w1\<lparr>self := (self w1)\<lparr>last_harvest_time := t,
                                clicks_since_last_harvest := c, is_setup := Some False\<rparr>\<rparr>))"
proof (cases "calc_yield_info E (self w)")
  case (Inl e)
  then show ?thesis by (simp add: harvest_def)
next
  case (Inr res)
  obtain q tr cr where res: "res = (q, tr, cr)" by (cases res)
  show ?thesis
  proof (cases "harvest_yield E (item (self w))")
    case None
    with Inr res show ?thesis by (simp add: harvest_def get_yield_item_id_def)
  next
    case (Some yi)
    from Inr obtain s where s: "is_setupable E (self w) = Inr s"
      by (cases "is_setupable E (self w)") (simp_all add: calc_yield_info_def)
    show ?thesis
    proof (cases "s \<and> is_setup (self w) \<noteq> Some True")
      case True
      with Inr res s have "q = 0" "tr = PyInt 0"
        by (auto simp: calc_yield_info_def)
      with Inr res Some have "harvest E w = (Inl TypeError, w)"
        by (simp add: harvest_def get_yield_item_id_def)
      with True s Some show ?thesis by simp
    next
      case False
      with Inr res s Some obtain d where tr: "tr = Timedelta d"
        by (auto simp: calc_yield_info_def Let_def split: sum.splits prod.splits)
      let ?w1 = "add_inv_item (owner (self w)) (yield_item_id yi) q w"
      have "harvest E w = save E (?w1\<lparr>self := (self ?w1)\<lparr>last_harvest_time := now E - d,
                                clicks_since_last_harvest := cr, is_setup := Some False\<rparr>\<rparr>)"
        using Inr res Some tr by (simp add: harvest_def get_yield_item_id_def)
      moreover have "self ?w1 = self w" by simp
      moreover have "is_setupable E (self w) = Inr False \<or> is_setup (self w) = Some True"
        using False s by auto
      ultimately show ?thesis by blast
    qed
  qed
qed

lemma save_reset:
  assumes "is_setup (self w) = Some False"
  shows "save E w =
    (case is_setupable E (self w) of
       Inl e \<Rightarrow> (Inl e, w)
     | Inr s \<Rightarrow> (Inr (), w\<lparr>self := (self w)\<lparr>is_setup := if s then Some False else None\<rparr>\<rparr>))"
proof (cases "is_setupable E (self w)")
  case (Inl e)
  then show ?thesis by (simp add: save_def)
next
  case (Inr s)
  have "w\<lparr>self := (self w)\<lparr>is_setup := Some False\<rparr>\<rparr> = w"
    using assms by simp
  with Inr assms show ?thesis by (cases s) (simp_all add: save_def)
qed

lemma harvest_ok:
  assumes "setup_state_ok E (self w)"
  shows "setup_state_ok E (self (snd (harvest E w)))"
  using harvest_cases[of E w] assms
  by (auto simp: save_after_reset_ok intro!: save_ok)

lemma harvest_is_setup:
  "(is_setupable E (self w) = Inr False \<and> is_setup (self w) = None \<longrightarrow>
      is_setup (self (snd (harvest E w))) = None) \<and>
   (is_setup (self (snd (harvest E w))) = Some False \<and> is_setup (self w) \<noteq> Some False \<longrightarrow>
      is_setup (self w) = Some True) \<and>
   (fst (harvest E w) = Inr () \<longrightarrow>
      is_setup (self (snd (harvest E w))) =
        (if is_setupable E (self w) = Inr True then Some False else None))"
proof -
  consider (err) e where "harvest E w = (Inl e, w)"
    | (type_error) "is_setupable E (self w) = Inr True" "is_setup (self w) \<noteq> Some True"
        "harvest E w = (Inl TypeError, w)"
    | (saved) w1 t c where "self w1 = self w"
        "is_setupable E (self w) = Inr False \<or> is_setup (self w) = Some True"
        "harvest E w = save E (w1\<lparr>self := (self w1)\<lparr>last_harvest_time := t,
                                clicks_since_last_harvest := c, is_setup := Some False\<rparr>\<rparr>)"
    using harvest_cases[of E w] by blast
  then show ?thesis
  proof cases
    case err
    then show ?thesis by simp
  next
    case type_error
    then show ?thesis by simp
  next
    case saved
    let ?m = "(self w1)\<lparr>last_harvest_time := t, clicks_since_last_harvest := c, is_setup := Some False\<rparr>"
    have "is_setupable E ?m = is_setupable E (self w)"
      by (rule is_setupable_cong) (simp add: saved(1))
    then have i: "is_setupable E (self (w1\<lparr>self := ?m\<rparr>)) = is_setupable E (self w)"
      by simp
    note sr = save_reset[of "w1\<lparr>self := ?m\<rparr>" E]
    show ?thesis
    proof (cases "is_setupable E (self w)")
      case (Inl e)
      with sr saved(3) i have "harvest E w = (Inl e, w1\<lparr>self := ?m\<rparr>)" by simp
      with Inl saved(2) show ?thesis by simp
    next
      case (Inr s)
      with sr saved(3) i have "harvest E w =
          (Inr (), w1\<lparr>self := ?m\<lparr>is_setup := if s then Some False else None\<rparr>\<rparr>)"
        by simp
      with Inr saved(2) show ?thesis by (cases s) auto
    qed
  qed
qed

lemma update_clicks_ok:
  assumes ok: "setup_state_ok E (self w)"
  shows "setup_state_ok E (self (snd (update_clicks E clicker w)))"
proof -
  let ?w2 = "w\<lparr>available_votes := (available_votes w)(clicker := available_votes w clicker - 1),
               self := (self w)\<lparr>clicks_since_last_harvest := clicks_since_last_harvest (self w) + 1,
                                total_clicks := total_clicks (self w) + 1\<rparr>\<rparr>"
  have "setup_state_ok E (self ?w2) = setup_state_ok E (self w)"
    by (rule setup_state_ok_cong) simp_all
  with ok have "setup_state_ok E (self ?w2)" by simp
  then have "setup_state_ok E (self (snd (save E ?w2)))"
    by (intro save_ok) simp
  with ok show ?thesis by (simp add: update_clicks_def Let_def)
qed

lemma click_ok:
  assumes ok: "setup_state_ok E (self w)"
  shows "setup_state_ok E (self (snd (click E clicker w)))"
proof -
  obtain r1 w1 where u: "update_clicks E clicker w = (r1, w1)"
    by (cases "update_clicks E clicker w")
  have ok1: "setup_state_ok E (self w1)"
    using update_clicks_ok[OF ok, of clicker] u by simp
  show ?thesis
  proof (cases r1)
    case (Inl e)
    with u ok1 show ?thesis by (simp add: click_def)
  next
    case (Inr x)
    obtain r2 w2 where d: "distribute_items E clicker w1 = (r2, w2)"
      by (cases "distribute_items E clicker w1")
    have s2: "self w2 = self w1"
      using distribute_items_self[of E clicker w1] d by simp
    show ?thesis
    proof (cases r2)
      case (Inl e)
      with u Inr d s2 ok1 show ?thesis by (simp add: click_def)
    next
      case r2: (Inr g)
      show ?thesis
      proof (cases "is_setup (self w2) = Some True \<and> \<not> is_networker E (owner (self w2))")
        case True
        obtain r3 w3 where sv: "save E (w2\<lparr>self := (self w2)\<lparr>is_setup := Some False\<rparr>\<rparr>) = (r3, w3)"
          by (cases "save E (w2\<lparr>self := (self w2)\<lparr>is_setup := Some False\<rparr>\<rparr>)")
        have "setup_state_ok E (self w3)"
          using save_after_reset_ok[of E w2] sv by simp
        moreover have "snd (click E clicker w) = w3"
          using u Inr d r2 True sv by (cases r3) (simp_all add: click_def)
        ultimately show ?thesis by simp
      next
        case False
        with u Inr d r2 have "snd (click E clicker w) = w2"
          by (auto simp: click_def)
        with s2 ok1 show ?thesis by simp
      qed
    qed
  qed
qed

text \<open>
  Claim C7. Creation establishes the invariant that a module whose item has no setup
  requirement has \<^verbatim>\<open>is_setup = None\<close>, and \<^verbatim>\<open>setup\<close>, \<^verbatim>\<open>teardown\<close>,
  \<^verbatim>\<open>harvest\<close> and \<^verbatim>\<open>click\<close> preserve it, whether they return or raise.
  \<^verbatim>\<open>harvest\<close> leaves a module without setup requirement at \<^verbatim>\<open>None\<close>; a module is
  at \<^verbatim>\<open>False\<close> after a harvest, and was not before, only if it was set up; and a
  harvest that returns leaves \<^verbatim>\<open>False\<close> when the item has a setup requirement and
  \<^verbatim>\<open>None\<close> otherwise.
\<close>

theorem setup_state_invariant:
  "setup_state_ok E (self (snd (create E k i u x y w))) \<and>
   (setup_state_ok E (self w) \<longrightarrow>
      setup_state_ok E (self (snd (setup_module E w))) \<and>
      setup_state_ok E (self (snd (teardown E w))) \<and>
      setup_state_ok E (self (snd (harvest E w))) \<and>
      setup_state_ok E (self (snd (click E clicker w)))) \<and>
   (is_setupable E (self w) = Inr False \<and> is_setup (self w) = None \<longrightarrow>
      is_setup (self (snd (harvest E w))) = None) \<and>
   (is_setup (self (snd (harvest E w))) = Some False \<and> is_setup (self w) \<noteq> Some False \<longrightarrow>
      is_setup (self w) = Some True) \<and>
   (fst (harvest E w) = Inr () \<longrightarrow>
      is_setup (self (snd (harvest E w))) =
        (if is_setupable E (self w) = Inr True then Some False else None))"
  using create_ok[of E k i u x y w] setup_module_ok[of E w] teardown_ok[of E w]
    harvest_ok[of E w] click_ok[of E w clicker] harvest_is_setup[of E w]
  by blast

theorem setup_state_invariant_witness:
  "is_setupable yield_env (self world0) = Inr False \<and>
   is_setup (self world0) = None \<and>
   setup_state_ok yield_env (self world0) \<and>
   fst (harvest yield_env world0) = Inr () \<and>
   is_setup (self (snd (harvest yield_env world0))) = None \<and>
   setup_state_ok yield_env (self (snd (click yield_env 2 world0))) \<and>
   is_setup (self (snd (create yield_env 2 10 1 None None world0))) = None \<and>
   is_setupable setup_cost_env (self set_up_world) = Inr True \<and>
   is_setup (self set_up_world) = Some True \<and>
   fst (harvest setup_cost_env set_up_world) = Inr () \<and>
   is_setup (self (snd (harvest setup_cost_env set_up_world))) = Some False"
proof -
  have s0: "is_setupable yield_env (self world0) = Inr False"
    by (simp add: is_setupable_def get_info_def yield_env_def env0_def world0_def module0_def)
  have n0: "is_setup (self world0) = None"
    by (simp add: world0_def module0_def)
  have ok0: "setup_state_ok yield_env (self world0)"
    by (simp add: setup_state_ok_def n0)
  have period: "divide_and_round DAY 2 = 43200000000"
    by (simp add: divide_and_round_def DAY_def Let_def)
  have c0: "calc_yield_info yield_env (self world0) = Inr (1, Timedelta 0, 0)"
    using period
    by (simp add: calc_yield_info_def is_setupable_def get_info_def time_yield_info_def click_yield_info_def
        divmod_timedelta_def yield_env_def env0_def world0_def module0_def)
  have h0: "fst (harvest yield_env world0) = Inr ()"
    unfolding harvest_def c0
    by (simp add: get_yield_item_id_def save_def is_setupable_def get_info_def
        yield_env_def env0_def world0_def module0_def)
  have s1: "is_setupable setup_cost_env (self set_up_world) = Inr True"
    by (simp add: is_setupable_def get_info_def setup_cost_env_def yield_env_def env0_def
        set_up_world_def world0_def module0_def)
  have c1: "calc_yield_info setup_cost_env (self set_up_world) = Inr (1, Timedelta 0, 0)"
    using period
    by (simp add: calc_yield_info_def is_setupable_def get_info_def time_yield_info_def click_yield_info_def
        divmod_timedelta_def setup_cost_env_def yield_env_def env0_def set_up_world_def
        world0_def module0_def)
  have h1: "fst (harvest setup_cost_env set_up_world) = Inr ()"
    unfolding harvest_def c1
    by (simp add: get_yield_item_id_def save_def is_setupable_def get_info_def
        setup_cost_env_def yield_env_def env0_def set_up_world_def world0_def module0_def)
  have cr: "is_setup (self (snd (create yield_env 2 10 1 None None world0))) = None"
    by (simp add: create_def save_def is_setupable_def get_info_def yield_env_def env0_def)
  from setup_state_invariant[of yield_env 2 10 1 None None world0 2] s0 n0 ok0 h0
  have a: "is_setup (self (snd (harvest yield_env world0))) = None"
    and b: "setup_state_ok yield_env (self (snd (click yield_env 2 world0)))"
    by simp_all
  from setup_state_invariant[of setup_cost_env 2 10 1 None None set_up_world 2] s1 h1
  have c: "is_setup (self (snd (harvest setup_cost_env set_up_world))) = Some False"
    by simp
  have n1: "is_setup (self set_up_world) = Some True"
    by (simp add: set_up_world_def)
  from s0 n0 ok0 h0 a b cr s1 n1 h1 c show ?thesis by simp
qed

end
